theory Spec2Isabelle
  imports Main
begin

section \<open>Errors\<close>

text \<open>
  Go's \<^verbatim>\<open>error\<close> values, one constructor per origin; the payload is the message.
  A nil error is \<open>None :: error option\<close>.
\<close>

datatype error =
    ErrNotExist string
  | ErrIO string
  | ErrYAML string
  | ErrMerge string
  | ErrVCS string
  | ErrUser string
  | ErrTemplateParse string
  | ErrTemplateExec string

section \<open>Package gitver\<close>

subsection \<open>GitVersion and the default template\<close>

record GitVersion =
  Branch :: string
  Commits :: string
  Hash :: string
  Dirty :: bool
  User :: string

definition DefaultTemplate :: string where
  "DefaultTemplate = ''{{if .Dirty}}dirty-{{.User}}-{{end}}{{.Commits}}.{{.Hash}}''"

subsection \<open>The fragment of text/template the version templates use\<close>

text \<open>
  \<^verbatim>\<open>text/template\<close> is Go's standard library. The model covers the dialect of the
  version templates: literal text, \<^verbatim>\<open>{{.Field}}\<close>, and \<^verbatim>\<open>{{if .Field}}\<close> with an
  optional \<^verbatim>\<open>{{else}}\<close>, closed by \<^verbatim>\<open>{{end}}\<close>. Whether a field exists is found out
  when the template is executed, not when it is parsed, as in the library. Pipelines,
  functions, method calls, comments and trim markers are outside the fragment; the
  model's parser refuses them.
\<close>

datatype item = Txt string | Act string

datatype token = TText string | TField string | TIf string | TElse | TEnd

datatype node = TextNode string | FieldNode string | IfNode string "node list" "node list"

definition push_text :: "string \<Rightarrow> item list \<Rightarrow> item list" where
  "push_text acc items = (if acc = [] then items else Txt (rev acc) # items)"

text \<open>
  The lexer: \<open>acc\<close> holds the characters of the current piece in reverse, \<open>items\<close> the
  finished pieces in reverse; \<open>inact\<close> says whether the scan is between the delimiters.
\<close>

fun lex :: "bool \<Rightarrow> string \<Rightarrow> item list \<Rightarrow> string \<Rightarrow> error + item list" where
  "lex inact acc items [] =
     (if inact then Inl (ErrTemplateParse ''unclosed action'')
      else Inr (rev (push_text acc items)))"
| "lex inact acc items [c] = lex inact (c # acc) items []"
| "lex inact acc items (c # d # cs) =
     (if \<not> inact \<and> c = CHR ''{'' \<and> d = CHR ''{'' then lex True [] (push_text acc items) cs
      else if inact \<and> c = CHR ''}'' \<and> d = CHR ''}'' then lex False [] (Act (rev acc) # items) cs
      else lex inact (c # acc) items (d # cs))"

definition is_space :: "char \<Rightarrow> bool" where
  "is_space c = (c = CHR '' '' \<or> c = CHR 0x09 \<or> c = CHR 0x0A \<or> c = CHR 0x0D)"

definition trim_space :: "string \<Rightarrow> string" where
  "trim_space s = rev (dropWhile is_space (rev (dropWhile is_space s)))"

definition is_alnum :: "char \<Rightarrow> bool" where
  "is_alnum c =
     (let n = (of_char c :: nat)
      in (48 \<le> n \<and> n \<le> 57) \<or> (65 \<le> n \<and> n \<le> 90) \<or> (97 \<le> n \<and> n \<le> 122))"

definition is_ident_char :: "char \<Rightarrow> bool" where
  "is_ident_char c = (is_alnum c \<or> c = CHR ''_'')"

definition field_ref :: "string \<Rightarrow> string option" where
  "field_ref s =
     (case s of
        [] \<Rightarrow> None
      | c # nm \<Rightarrow> if c = CHR ''.'' \<and> nm \<noteq> [] \<and> list_all is_ident_char nm then Some nm else None)"

definition classify :: "string \<Rightarrow> error + token" where
  "classify raw =
     (let s = trim_space raw in
      if s = ''end'' then Inr TEnd
      else if s = ''else'' then Inr TElse
      else if take 2 s = ''if'' \<and> drop 2 s \<noteq> [] \<and> is_space (hd (drop 2 s)) then
        (case field_ref (trim_space (drop 2 s)) of
           Some nm \<Rightarrow> Inr (TIf nm)
         | None \<Rightarrow> Inl (ErrTemplateParse (''bad condition: '' @ s)))
      else
        (case field_ref s of
           Some nm \<Rightarrow> Inr (TField nm)
         | None \<Rightarrow> Inl (ErrTemplateParse (''bad action: '' @ s))))"

fun tokens :: "item list \<Rightarrow> error + token list" where
  "tokens [] = Inr []"
| "tokens (Txt s # its) =
     (case tokens its of Inl e \<Rightarrow> Inl e | Inr ts \<Rightarrow> Inr (TText s # ts))"
| "tokens (Act a # its) =
     (case classify a of
        Inl e \<Rightarrow> Inl e
      | Inr t \<Rightarrow> (case tokens its of Inl e \<Rightarrow> Inl e | Inr ts \<Rightarrow> Inr (t # ts)))"

text \<open>
  The parser keeps a stack of the open \<^verbatim>\<open>if\<close> blocks: the condition's field, the
  finished then-branch once \<^verbatim>\<open>{{else}}\<close> was read, and the nodes (in reverse) of the
  list the block stands in. \<open>cur\<close> holds the nodes of the current list in reverse.
\<close>

type_synonym frame = "string \<times> node list option \<times> node list"

fun build :: "frame list \<Rightarrow> node list \<Rightarrow> token list \<Rightarrow> error + node list" where
  "build stack cur [] =
     (if stack = [] then Inr (rev cur) else Inl (ErrTemplateParse ''unexpected EOF''))"
| "build stack cur (TText s # ts) = build stack (TextNode s # cur) ts"
| "build stack cur (TField f # ts) = build stack (FieldNode f # cur) ts"
| "build stack cur (TIf f # ts) = build ((f, None, cur) # stack) [] ts"
| "build stack cur (TElse # ts) =
     (case stack of
        (f, None, outer) # rest \<Rightarrow> build ((f, Some (rev cur), outer) # rest) [] ts
      | _ \<Rightarrow> Inl (ErrTemplateParse ''unexpected {{else}}''))"
| "build stack cur (TEnd # ts) =
     (case stack of
        [] \<Rightarrow> Inl (ErrTemplateParse ''unexpected {{end}}'')
      | (f, None, outer) # rest \<Rightarrow> build rest (IfNode f (rev cur) [] # outer) ts
      | (f, Some thn, outer) # rest \<Rightarrow> build rest (IfNode f thn (rev cur) # outer) ts)"

definition template_Parse :: "string \<Rightarrow> error + node list" where
  "template_Parse text =
     (case lex False [] [] text of
        Inl e \<Rightarrow> Inl e
      | Inr its \<Rightarrow> (case tokens its of Inl e \<Rightarrow> Inl e | Inr ts \<Rightarrow> build [] [] ts))"

datatype tvalue = VString string | VBool bool

definition field_value :: "GitVersion \<Rightarrow> string \<Rightarrow> tvalue option" where
  "field_value ver f =
     (if f = ''Branch'' then Some (VString (Branch ver))
      else if f = ''Commits'' then Some (VString (Commits ver))
      else if f = ''Hash'' then Some (VString (Hash ver))
      else if f = ''Dirty'' then Some (VBool (Dirty ver))
      else if f = ''User'' then Some (VString (User ver))
      else None)"

text \<open>The data is a pointer to a GitVersion: \<open>None\<close> is the nil pointer.\<close>

definition eval_field :: "GitVersion option \<Rightarrow> string \<Rightarrow> error + tvalue" where
  "eval_field data f =
     (case data of
        None \<Rightarrow> Inl (ErrTemplateExec (''nil pointer evaluating field '' @ f))
      | Some ver \<Rightarrow>
          (case field_value ver f of
             None \<Rightarrow> Inl (ErrTemplateExec (''cannot evaluate field '' @ f))
           | Some v \<Rightarrow> Inr v))"

fun truth :: "tvalue \<Rightarrow> bool" where
  "truth (VBool b) = b"
| "truth (VString s) = (s \<noteq> [])"

fun print_value :: "tvalue \<Rightarrow> string" where
  "print_value (VString s) = s"
| "print_value (VBool b) = (if b then ''true'' else ''false'')"

fun exec_node :: "GitVersion option \<Rightarrow> node \<Rightarrow> error + string"
  and exec_nodes :: "GitVersion option \<Rightarrow> node list \<Rightarrow> error + string" where
  "exec_node data (TextNode s) = Inr s"
| "exec_node data (FieldNode f) =
     (case eval_field data f of Inl e \<Rightarrow> Inl e | Inr v \<Rightarrow> Inr (print_value v))"
| "exec_node data (IfNode f thn els) =
     (case eval_field data f of
        Inl e \<Rightarrow> Inl e
      | Inr v \<Rightarrow> if truth v then exec_nodes data thn else exec_nodes data els)"
| "exec_nodes data [] = Inr []"
| "exec_nodes data (n # ns) =
     (case exec_node data n of
        Inl e \<Rightarrow> Inl e
      | Inr s \<Rightarrow> (case exec_nodes data ns of Inl e \<Rightarrow> Inl e | Inr t \<Rightarrow> Inr (s @ t)))"

definition template_Execute :: "node list \<Rightarrow> GitVersion option \<Rightarrow> error + string" where
  "template_Execute tmpl data = exec_nodes data tmpl"

subsection \<open>FormatTemplate\<close>

text \<open>
  \<open>FormatTemplate\<close> takes the template library as its first two arguments. \<open>err\<close> is the
  variable the source assigns from \<open>Parse\<close>; it is nil once the first check is passed,
  and it is what the source returns when \<open>Execute\<close> fails.
\<close>

definition FormatTemplate ::
  "(string \<Rightarrow> error + 't) \<Rightarrow> ('t \<Rightarrow> GitVersion option \<Rightarrow> error + string) \<Rightarrow>
   GitVersion option \<Rightarrow> string \<Rightarrow> string \<times> error option" where
  "FormatTemplate Parse Execute ver arg =
     (case Parse arg of
        Inl err \<Rightarrow> ([], Some err)
      | Inr versionTemplate \<Rightarrow>
          (let err = None in
           case Execute versionTemplate ver of
             Inl execErr \<Rightarrow> ([], err)
           | Inr built \<Rightarrow> (built, None)))"

subsection \<open>The identity cache and currentUser\<close>

text \<open>
  Modelled from the spec: the type \<^verbatim>\<open>cachedStringResponse\<close> and its method \<^verbatim>\<open>Do\<close> are
  declared in a part of package gitver that is not among the sources modelled here.
  Section 4.2 describes a compute-once primitive:
  the first call runs the lookup and stores its value or its error as the permanent
  outcome; a later call runs nothing. \<open>once_done\<close> is the flag of that primitive.
\<close>

record cachedStringResponse =
  once_done :: bool
  response :: string
  err :: "error option"

text \<open>
  The process state \<open>currentUser\<close> works on: the package variable \<open>sanitizedUserCache\<close>
  and the number of calls of \<^verbatim>\<open>user.Current\<close> made so far. The host lookup is a
  parameter, \<open>user_Current k\<close> being what the lookup returns when it is the \<open>k\<close>-th one
  made, so that a repeated lookup could answer differently.
\<close>

record identity_state =
  sanitizedUserCache :: cachedStringResponse
  lookups :: nat

definition cache_Do ::
  "(identity_state \<Rightarrow> identity_state) \<Rightarrow> identity_state \<Rightarrow> identity_state" where
  "cache_Do f s =
     (if once_done (sanitizedUserCache s) then s
      else (let s' = f s
            in s'\<lparr>sanitizedUserCache := (sanitizedUserCache s')\<lparr>once_done := True\<rparr>\<rparr>))"

text \<open>
  The pattern \<^verbatim>\<open>[^a-zA-Z0-9]+\<close> is a constant that compiles, so the second error branch
  of the source is never taken; replacing every match by the empty string keeps exactly
  the characters of the three ranges.
\<close>

definition currentUser ::
  "(nat \<Rightarrow> error + string) \<Rightarrow> identity_state \<Rightarrow> (string \<times> error option) \<times> identity_state" where
  "currentUser user_Current s =
     (let s' = cache_Do
           (\<lambda>st. case user_Current (lookups st) of
                    Inl e \<Rightarrow>
                      st\<lparr>lookups := Suc (lookups st),
                         sanitizedUserCache := (sanitizedUserCache st)\<lparr>err := Some e\<rparr>\<rparr>
                  | Inr username \<Rightarrow>
                      st\<lparr>lookups := Suc (lookups st),
                         sanitizedUserCache := (sanitizedUserCache st)
                           \<lparr>response := filter is_alnum username, err := None\<rparr>\<rparr>)
           s
      in ((response (sanitizedUserCache s'), err (sanitizedUserCache s')), s'))"

definition initial_identity :: identity_state where
  "initial_identity =
     \<lparr>sanitizedUserCache = \<lparr>once_done = False, response = [], err = None\<rparr>, lookups = 0\<rparr>"

text \<open>\<open>n\<close> calls of \<open>currentUser\<close> one after the other: their results and the final state.\<close>

fun calls ::
  "(nat \<Rightarrow> error + string) \<Rightarrow> nat \<Rightarrow> identity_state \<Rightarrow>
   (string \<times> error option) list \<times> identity_state" where
  "calls user_Current 0 s = ([], s)"
| "calls user_Current (Suc n) s =
     (let (r, s') = currentUser user_Current s;
          (rs, s'') = calls user_Current n s'
      in (r # rs, s''))"

section \<open>Package core\<close>

definition pileConfigName :: string where
  "pileConfigName = ''pile.yml''"

definition dockerfile :: string where
  "dockerfile = ''Dockerfile''"

subsection \<open>ProjectConfig and Project\<close>

text \<open>
  \<^verbatim>\<open>registry.Config\<close> is declared in another package; its type is the parameter \<open>'r\<close>.
  The two anonymous structs of the \<open>Test\<close> field get a record each. The map \<open>BuildArgs\<close>
  is the list of its entries, the empty list for a map without entries.
\<close>

record CopyResultsConfig =
  SrcPath :: string
  DstPath :: string

record TestConfig =
  Target :: string
  CopyResults :: CopyResultsConfig

record 'r ProjectConfig =
  Name :: string
  ContextDir :: string
  ImagePrefix :: string
  VersionPrefix :: string
  VersionTemplate :: string
  DependsOn :: "string list"
  BuildArgs :: "(string \<times> string) list"
  Test :: TestConfig
  Registry :: 'r

record 'r Project =
  Dir :: string
  Config :: "'r ProjectConfig"
  CanBuild :: bool
  GitVersion :: "GitVersion option"
  Repository :: string
  Tag :: string
  Image :: string
  ImageWithRegistry :: string

subsection \<open>What Load calls outside the package\<close>

text \<open>
  The file system, the YAML and merge libraries, the version resolver \<^verbatim>\<open>gitver.New\<close>,
  the registry settings and the template library are parameters of \<open>Load\<close>, collected in
  one record. \<open>os_Stat\<close> gives the error of \<^verbatim>\<open>os.Stat\<close> (its file info is not used);
  \<open>yaml_Unmarshal\<close> gets the bytes and the configuration it writes into, and returns
  that configuration as the parser left it together with its error; \<open>mergo_Merge\<close> gets
  the destination and the source and returns the destination and its error;
  \<open>gitver_New\<close> returns a pointer (\<open>None\<close> is nil) and an error.
\<close>

record ('r, 't) env =
  os_Stat :: "string \<Rightarrow> error option"
  ioutil_ReadFile :: "string \<Rightarrow> error + string"
  yaml_Unmarshal :: "string \<Rightarrow> 'r ProjectConfig \<Rightarrow> 'r ProjectConfig \<times> error option"
  mergo_Merge :: "'r ProjectConfig \<Rightarrow> 'r ProjectConfig \<Rightarrow> 'r ProjectConfig \<times> error option"
  gitver_New :: "string list \<Rightarrow> GitVersion option \<times> error option"
  RegistryPrefix :: "'r \<Rightarrow> string"
  filepath_Join :: "string \<Rightarrow> string \<Rightarrow> string"
  tmpl_Parse :: "string \<Rightarrow> error + 't"
  tmpl_Execute :: "'t \<Rightarrow> GitVersion option \<Rightarrow> error + string"

definition IsNotExist :: "error option \<Rightarrow> bool" where
  "IsNotExist e = (case e of Some (ErrNotExist m) \<Rightarrow> True | _ \<Rightarrow> False)"

text \<open>
  \<^verbatim>\<open>filepath.Base\<close> with \<^verbatim>\<open>/\<close> as the separator and no volume names: the last element
  of the path once the trailing separators are removed; \<^verbatim>\<open>.\<close> for the empty path and
  \<^verbatim>\<open>/\<close> for a path of separators only.
\<close>

definition filepath_Base :: "string \<Rightarrow> string" where
  "filepath_Base path =
     (if path = [] then ''.''
      else (let stripped = rev (dropWhile (\<lambda>c. c = CHR ''/'') (rev path));
                base = rev (takeWhile (\<lambda>c. c \<noteq> CHR ''/'') (rev stripped))
            in if base = [] then ''/'' else base))"

subsection \<open>ContextDir, versionedPaths and Load\<close>

definition Project_ContextDir :: "('r, 't) env \<Rightarrow> 'r Project \<Rightarrow> string" where
  "Project_ContextDir env project =
     (if ContextDir (Config project) \<noteq> []
      then filepath_Join env (Dir project) (ContextDir (Config project))
      else Dir project)"

definition versionedPaths :: "('r, 't) env \<Rightarrow> 'r Project \<Rightarrow> string list" where
  "versionedPaths env project =
     (let paths = [Dir project];
          contextDir = Project_ContextDir env project;
          paths = (if Dir project \<noteq> contextDir then paths @ [contextDir] else paths)
      in paths @ map (\<lambda>dependency. filepath_Join env (Dir project) dependency)
                     (DependsOn (Config project)))"

text \<open>
  \<open>Load\<close> returns the project as the call leaves it, the error it returns, and the
  calls of the version resolver it made (the path list of each). \<open>defaults\<close> is the
  configuration the pointer argument points to. The result of \<open>mergo_Merge\<close> is used
  through \<open>fst\<close>: the source drops the error the merge returns.
\<close>

definition Load ::
  "('r, 't) env \<Rightarrow> 'r Project \<Rightarrow> 'r ProjectConfig \<Rightarrow>
   'r Project \<times> error option \<times> string list list" where
  "Load env project defaults =
     (let configPath = filepath_Join env (Dir project) pileConfigName in
      if IsNotExist (os_Stat env configPath) then (project, None, [])
      else
        (case ioutil_ReadFile env configPath of
           Inl readErr \<Rightarrow> (project, None, [])
         | Inr configFile \<Rightarrow>
             (case yaml_Unmarshal env configFile (Config project) of
                (parsed, Some yamlErr) \<Rightarrow> (project\<lparr>Config := parsed\<rparr>, None, [])
              | (parsed, None) \<Rightarrow>
                  (let named = (if Name parsed = []
                                then parsed\<lparr>Name := filepath_Base (Dir project)\<rparr>
                                else parsed);
                       merged = fst (mergo_Merge env named defaults);
                       project1 = project\<lparr>Config := merged\<rparr>;
                       dockerfilePath = filepath_Join env (Dir project1) dockerfile
                   in if IsNotExist (os_Stat env dockerfilePath)
                      then (project1\<lparr>CanBuild := False\<rparr>, None, [])
                      else
                        (let project2 = project1\<lparr>CanBuild := True\<rparr>;
                             paths = versionedPaths env project2;
                             project3 = project2\<lparr>GitVersion := fst (gitver_New env paths)\<rparr>
                         in case snd (gitver_New env paths) of
                              Some vcsErr \<Rightarrow> (project3, Some vcsErr, [paths])
                            | None \<Rightarrow>
                                (case FormatTemplate (tmpl_Parse env) (tmpl_Execute env)
                                        (GitVersion project3)
                                        (VersionTemplate (Config project3)) of
                                   (tag, Some tmplErr) \<Rightarrow>
                                     (project3\<lparr>Tag := tag\<rparr>, Some tmplErr, [paths])
                                 | (tag, None) \<Rightarrow>
                                     (let project4 = project3\<lparr>Tag := tag\<rparr>;
                                          project5 =
                                            (if VersionPrefix (Config project4) \<noteq> []
                                             then project4\<lparr>Tag :=
                                                    VersionPrefix (Config project4) @ Tag project4\<rparr>
                                             else project4);
                                          project6 = project5\<lparr>Repository :=
                                            ImagePrefix (Config project5) @ Name (Config project5)\<rparr>;
                                          project7 = project6\<lparr>Image :=
                                            Repository project6 @ '':'' @ Tag project6\<rparr>
                                      in (project7\<lparr>ImageWithRegistry :=
                                            RegistryPrefix env (Registry (Config project7))
                                              @ Image project7\<rparr>,
                                          None, [paths]))))))))"

definition Load_project :: "('r, 't) env \<Rightarrow> 'r Project \<Rightarrow> 'r ProjectConfig \<Rightarrow> 'r Project" where
  "Load_project env project defaults = fst (Load env project defaults)"

definition Load_error :: "('r, 't) env \<Rightarrow> 'r Project \<Rightarrow> 'r ProjectConfig \<Rightarrow> error option" where
  "Load_error env project defaults = fst (snd (Load env project defaults))"

definition Load_vcs_calls ::
  "('r, 't) env \<Rightarrow> 'r Project \<Rightarrow> 'r ProjectConfig \<Rightarrow> string list list" where
  "Load_vcs_calls env project defaults = snd (snd (Load env project defaults))"

subsection \<open>Filling a field that holds the zero value\<close>

text \<open>
  \<^verbatim>\<open>mergo.Merge\<close> belongs to a library and is a parameter of \<open>Load\<close>. Its documentation
  describes it as filling a field of the destination that holds Go's zero value with
  the source's value. \<open>inherit\<close> is that rule for one field whose zero value is the empty
  list (a string, a list, the entries of a map): the claims about the merge take it as
  the contract of the library, field by field. A Go struct does not record whether the
  descriptor named a field: a field the descriptor set to the empty value and a field
  it left out are the same empty field when the merge runs.
\<close>

definition inherit :: "'a list \<Rightarrow> 'a list \<Rightarrow> 'a list" where
  "inherit own dflt = (if own = [] then dflt else own)"

subsection \<open>A small workspace to run Load on\<close>

text \<open>
  The zero value of a configuration and of a project (\<^verbatim>\<open>Project{Dir: dir}\<close>), and one
  environment: a file system given as a map from paths to contents, a YAML parser that
  knows four descriptors, a merge that fills every empty field from the defaults (the
  build arguments key by key, the project's entry winning), a resolver that answers
  with one fixed version, registry settings that are the registry's host, and the
  template fragment.
\<close>

definition sample_Merge ::
  "string ProjectConfig \<Rightarrow> string ProjectConfig \<Rightarrow> string ProjectConfig \<times> error option" where
  "sample_Merge dst src =
     (\<lparr>Name = inherit (Name dst) (Name src),
       ContextDir = inherit (ContextDir dst) (ContextDir src),
       ImagePrefix = inherit (ImagePrefix dst) (ImagePrefix src),
       VersionPrefix = inherit (VersionPrefix dst) (VersionPrefix src),
       VersionTemplate = inherit (VersionTemplate dst) (VersionTemplate src),
       DependsOn = inherit (DependsOn dst) (DependsOn src),
       BuildArgs = BuildArgs dst @
                   filter (\<lambda>kv. map_of (BuildArgs dst) (fst kv) = None) (BuildArgs src),
       Test = \<lparr>Target = inherit (Target (Test dst)) (Target (Test src)),
                CopyResults =
                  \<lparr>SrcPath = inherit (SrcPath (CopyResults (Test dst)))
                                     (SrcPath (CopyResults (Test src))),
                   DstPath = inherit (DstPath (CopyResults (Test dst)))
                                     (DstPath (CopyResults (Test src)))\<rparr>\<rparr>,
       Registry = inherit (Registry dst) (Registry src)\<rparr>,
      None)"

definition zero_ProjectConfig :: "'r \<Rightarrow> 'r ProjectConfig" where
  "zero_ProjectConfig zero_registry =
     \<lparr>Name = [], ContextDir = [], ImagePrefix = [], VersionPrefix = [],
      VersionTemplate = [], DependsOn = [], BuildArgs = [],
      Test = \<lparr>Target = [], CopyResults = \<lparr>SrcPath = [], DstPath = []\<rparr>\<rparr>,
      Registry = zero_registry\<rparr>"

definition new_Project :: "string \<Rightarrow> 'r \<Rightarrow> 'r Project" where
  "new_Project dir zero_registry =
     \<lparr>Dir = dir, Config = zero_ProjectConfig zero_registry, CanBuild = False,
      GitVersion = None, Repository = [], Tag = [], Image = [], ImageWithRegistry = []\<rparr>"

definition sample_version :: GitVersion where
  "sample_version =
     \<lparr>Branch = ''main'', Commits = ''5'', Hash = ''abcdef1'', Dirty = False, User = ''bob''\<rparr>"

definition sample_Unmarshal ::
  "string \<Rightarrow> string ProjectConfig \<Rightarrow> string ProjectConfig \<times> error option" where
  "sample_Unmarshal bytes cfg =
     (if bytes = ''name: web'' then (cfg\<lparr>Name := ''web''\<rparr>, None)
      else if bytes = ''version_prefix: v'' then (cfg\<lparr>VersionPrefix := ''v''\<rparr>, None)
      else if bytes = ''version_template: r{{.Hash}}''
        then (cfg\<lparr>VersionTemplate := ''r{{.Hash}}''\<rparr>, None)
      else if bytes = ''version_template: {{.Hash''
        then (cfg\<lparr>VersionTemplate := ''{{.Hash''\<rparr>, None)
      else (cfg, Some (ErrYAML ''cannot unmarshal'')))"

definition sample_env :: "(string \<rightharpoonup> string) \<Rightarrow> (string, node list) env" where
  "sample_env files =
     \<lparr>os_Stat = (\<lambda>path. case files path of None \<Rightarrow> Some (ErrNotExist path) | Some c \<Rightarrow> None),
      ioutil_ReadFile =
        (\<lambda>path. case files path of None \<Rightarrow> Inl (ErrNotExist path) | Some c \<Rightarrow> Inr c),
      yaml_Unmarshal = sample_Unmarshal,
      mergo_Merge = sample_Merge,
      gitver_New = (\<lambda>paths. (Some sample_version, None)),
      RegistryPrefix = (\<lambda>host. if host = [] then [] else host @ ''/''),
      filepath_Join = (\<lambda>dir name. dir @ ''/'' @ name),
      tmpl_Parse = template_Parse,
      tmpl_Execute = template_Execute\<rparr>"

definition sample_defaults :: "string ProjectConfig" where
  "sample_defaults =
     (zero_ProjectConfig [])\<lparr>Name := ''root'', ImagePrefix := ''acme/'',
                             Registry := ''registry.local''\<rparr>"

definition sample_files :: "string option \<Rightarrow> bool \<Rightarrow> (string \<rightharpoonup> string)" where
  "sample_files descriptor with_dockerfile =
     (\<lambda>path. if path = ''/w/app/pile.yml'' then descriptor
             else if path = ''/w/app/Dockerfile'' \<and> with_dockerfile then Some ''FROM scratch''
             else None)"

text \<open>What the first call of \<open>currentUser\<close> in a process is to return, read off the lookup.\<close>

definition first_outcome :: "(nat \<Rightarrow> error + string) \<Rightarrow> string \<times> error option" where
  "first_outcome user_Current =
     (case user_Current 0 of
        Inl e \<Rightarrow> ([], Some e)
      | Inr username \<Rightarrow> (filter is_alnum username, None))"

section \<open>Auxiliary facts\<close>

lemma FormatTemplate_error_empty:
  "FormatTemplate P E v a = (t, Some e) \<Longrightarrow> t = []"
  by (auto simp: FormatTemplate_def Let_def split: sum.splits)

lemma filepath_Base_nonempty: "filepath_Base path \<noteq> []"
  by (simp add: filepath_Base_def Let_def)

lemma template_Parse_DefaultTemplate:
  "template_Parse DefaultTemplate =
     Inr [IfNode ''Dirty'' [TextNode ''dirty-'', FieldNode ''User'', TextNode ''-''] [],
          FieldNode ''Commits'', TextNode ''.'', FieldNode ''Hash'']"
  by code_simp

lemma currentUser_done:
  "once_done (sanitizedUserCache s) \<Longrightarrow>
   currentUser uc s = ((response (sanitizedUserCache s), err (sanitizedUserCache s)), s)"
  by (simp add: currentUser_def cache_Do_def)

lemma calls_done:
  "once_done (sanitizedUserCache s) \<Longrightarrow>
   snd (calls uc n s) = s \<and>
   fst (calls uc n s) = replicate n (response (sanitizedUserCache s), err (sanitizedUserCache s))"
  by (induction n) (auto simp: currentUser_done split: prod.splits)

lemma currentUser_first:
  "currentUser uc initial_identity = (r, s) \<Longrightarrow>
   r = first_outcome uc \<and> once_done (sanitizedUserCache s) \<and> lookups s = 1 \<and>
   (response (sanitizedUserCache s), err (sanitizedUserCache s)) = first_outcome uc"
  by (auto simp: currentUser_def cache_Do_def initial_identity_def first_outcome_def Let_def
      split: sum.splits)


section \<open>The claims\<close>

subsection \<open>C6: the default template\<close>

text \<open>
  Claim C6. Rendering the built-in default template on the record with \<open>Dirty\<close> true,
  user \<open>bob\<close>, commits \<open>5\<close> and hash \<open>abcdef1\<close> gives exactly \<open>dirty-bob-5.abcdef1\<close>; on
  the record with \<open>Dirty\<close> false, the same commits and hash and any user (and any branch)
  it gives exactly \<open>5.abcdef1\<close>. Both calls return a nil error.
\<close>

theorem DefaultTemplate_renders:
  "FormatTemplate template_Parse template_Execute
     (Some \<lparr>Branch = b, Commits = ''5'', Hash = ''abcdef1'', Dirty = True, User = ''bob''\<rparr>)
     DefaultTemplate = (''dirty-bob-5.abcdef1'', None) \<and>
   FormatTemplate template_Parse template_Execute
     (Some \<lparr>Branch = b', Commits = ''5'', Hash = ''abcdef1'', Dirty = False, User = u\<rparr>)
     DefaultTemplate = (''5.abcdef1'', None)"
  by (simp add: FormatTemplate_def template_Parse_DefaultTemplate template_Execute_def
      eval_field_def field_value_def)

subsection \<open>C2: what FormatTemplate returns when rendering fails\<close>

text \<open>
  Claim C2 says that a failure of the rendering reaches the caller as a non-nil error.
  The source tests the result of \<open>Execute\<close> and then returns \<open>err\<close>, the variable of the
  parse step, which is nil at that point: whenever the template parses and its
  execution fails, \<open>FormatTemplate\<close> returns the empty string and a nil error. A
  template that does not parse does return its parse error.
\<close>

theorem FormatTemplate_render_failure:
  "(Parse arg = Inr t \<and> Execute t ver = Inl execErr \<longrightarrow>
      FormatTemplate Parse Execute ver arg = ([], None)) \<and>
   (Parse arg = Inl parseErr \<longrightarrow>
      FormatTemplate Parse Execute ver arg = ([], Some parseErr))"
  by (simp add: FormatTemplate_def)

theorem FormatTemplate_render_failure_witness:
  "template_Parse ''{{.Missing}}'' = Inr [FieldNode ''Missing''] \<and>
   template_Execute [FieldNode ''Missing''] (Some sample_version) =
     Inl (ErrTemplateExec ''cannot evaluate field Missing'') \<and>
   FormatTemplate template_Parse template_Execute (Some sample_version) ''{{.Missing}}'' =
     ([], None) \<and>
   template_Parse ''{{.Hash'' = Inl (ErrTemplateParse ''unclosed action'') \<and>
   FormatTemplate template_Parse template_Execute (Some sample_version) ''{{.Hash'' =
     ([], Some (ErrTemplateParse ''unclosed action''))"
proof -
  have p: "template_Parse ''{{.Missing}}'' = Inr [FieldNode ''Missing'']"
    by code_simp
  have x: "template_Execute [FieldNode ''Missing''] (Some sample_version) =
             Inl (ErrTemplateExec ''cannot evaluate field Missing'')"
    by code_simp
  have q: "template_Parse ''{{.Hash'' = Inl (ErrTemplateParse ''unclosed action'')"
    by code_simp
  from p x q
    FormatTemplate_render_failure [of template_Parse "''{{.Missing}}''" "[FieldNode ''Missing'']"
      template_Execute "Some sample_version"]
    FormatTemplate_render_failure [of template_Parse "''{{.Hash''" _ template_Execute _ _
      "ErrTemplateParse ''unclosed action''"]
  show ?thesis by simp
qed

subsection \<open>C7: a project without a Dockerfile\<close>

text \<open>
  Claim C7. For a project directory that has a config descriptor and no Dockerfile,
  \<open>Load\<close> returns no error, calls the version resolver not once, and leaves
  \<open>GitVersion\<close>, \<open>Tag\<close>, \<open>Repository\<close>, \<open>Image\<close> and \<open>ImageWithRegistry\<close> as they were
  (nil and empty in a fresh project). When the descriptor is read and parsed, \<open>Load\<close>
  writes exactly two fields, whatever they held before: \<open>Config\<close> becomes the merged
  configuration and \<open>CanBuild\<close> becomes false. \<open>Load\<close> never leaves \<open>CanBuild\<close> true
  here unless it was true on entry and the descriptor did not load.
\<close>

theorem Load_no_Dockerfile:
  assumes "\<not> IsNotExist (os_Stat env (filepath_Join env (Dir p) pileConfigName))"
    and "IsNotExist (os_Stat env (filepath_Join env (Dir p) dockerfile))"
  shows "(ioutil_ReadFile env (filepath_Join env (Dir p) pileConfigName) = Inr configFile \<and>
          yaml_Unmarshal env configFile (Config p) = (parsed, None) \<longrightarrow>
            Load env p d =
              (p\<lparr>Config := fst (mergo_Merge env
                     (if Name parsed = [] then parsed\<lparr>Name := filepath_Base (Dir p)\<rparr>
                      else parsed) d),
                 CanBuild := False\<rparr>, None, [])) \<and>
         Load_error env p d = None \<and> Load_vcs_calls env p d = [] \<and>
         (CanBuild (Load_project env p d) \<longrightarrow> CanBuild p) \<and>
         GitVersion (Load_project env p d) = GitVersion p \<and>
         Tag (Load_project env p d) = Tag p \<and>
         Repository (Load_project env p d) = Repository p \<and>
         Image (Load_project env p d) = Image p \<and>
         ImageWithRegistry (Load_project env p d) = ImageWithRegistry p \<and>
         Dir (Load_project env p d) = Dir p"
  using assms
  by (simp add: Load_def Load_error_def Load_vcs_calls_def Load_project_def Let_def
      split: sum.splits prod.splits option.splits)

theorem Load_no_Dockerfile_witness:
  "Load (sample_env (sample_files (Some ''name: web'') False))
     ((new_Project ''/w/app'' [])\<lparr>CanBuild := True\<rparr>) sample_defaults =
     ((new_Project ''/w/app'' [])
        \<lparr>Config := sample_defaults\<lparr>Name := ''web''\<rparr>, CanBuild := False\<rparr>, None, []) \<and>
   Load_error (sample_env (sample_files (Some ''name: web'') False))
     (new_Project ''/w/app'' []) sample_defaults = None \<and>
   Load_vcs_calls (sample_env (sample_files (Some ''name: web'') False))
     (new_Project ''/w/app'' []) sample_defaults = [] \<and>
   \<not> CanBuild (Load_project (sample_env (sample_files (Some ''name: web'') False))
     (new_Project ''/w/app'' []) sample_defaults) \<and>
   GitVersion (Load_project (sample_env (sample_files (Some ''name: web'') False))
     (new_Project ''/w/app'' []) sample_defaults) = None \<and>
   Tag (Load_project (sample_env (sample_files (Some ''name: web'') False))
     (new_Project ''/w/app'' []) sample_defaults) = [] \<and>
   Repository (Load_project (sample_env (sample_files (Some ''name: web'') False))
     (new_Project ''/w/app'' []) sample_defaults) = [] \<and>
   Image (Load_project (sample_env (sample_files (Some ''name: web'') False))
     (new_Project ''/w/app'' []) sample_defaults) = [] \<and>
   ImageWithRegistry (Load_project (sample_env (sample_files (Some ''name: web'') False))
     (new_Project ''/w/app'' []) sample_defaults) = []"
proof -
  let ?E = "sample_env (sample_files (Some ''name: web'') False)"
  let ?P = "new_Project ''/w/app'' [] :: string Project"
  let ?Q = "?P\<lparr>CanBuild := True\<rparr>"
  have h1: "\<not> IsNotExist (os_Stat ?E (filepath_Join ?E (Dir ?P) pileConfigName))"
    "\<not> IsNotExist (os_Stat ?E (filepath_Join ?E (Dir ?Q) pileConfigName))"
    by (simp_all add: sample_env_def sample_files_def new_Project_def IsNotExist_def
        pileConfigName_def)
  have h2: "IsNotExist (os_Stat ?E (filepath_Join ?E (Dir ?P) dockerfile))"
    "IsNotExist (os_Stat ?E (filepath_Join ?E (Dir ?Q) dockerfile))"
    by (simp_all add: sample_env_def sample_files_def new_Project_def IsNotExist_def
        dockerfile_def)
  have r: "ioutil_ReadFile ?E (filepath_Join ?E (Dir ?Q) pileConfigName) = Inr ''name: web''"
    by (simp add: sample_env_def sample_files_def new_Project_def pileConfigName_def)
  have u: "yaml_Unmarshal ?E ''name: web'' (Config ?Q) =
             ((zero_ProjectConfig [])\<lparr>Name := ''web''\<rparr>, None)"
    by (simp add: sample_env_def sample_Unmarshal_def new_Project_def)
  have m: "fst (mergo_Merge ?E ((zero_ProjectConfig [])\<lparr>Name := ''web''\<rparr>) sample_defaults) =
             sample_defaults\<lparr>Name := ''web''\<rparr>"
    by (simp add: sample_env_def sample_Merge_def inherit_def zero_ProjectConfig_def
        sample_defaults_def)
  have q: "?Q\<lparr>Config := sample_defaults\<lparr>Name := ''web''\<rparr>, CanBuild := False\<rparr> =
           ?P\<lparr>Config := sample_defaults\<lparr>Name := ''web''\<rparr>, CanBuild := False\<rparr>"
    by simp
  from Load_no_Dockerfile [OF h1(2) h2(2), of "''name: web''"
      "(zero_ProjectConfig [])\<lparr>Name := ''web''\<rparr>" sample_defaults] r u m q
  have a: "Load ?E ?Q sample_defaults =
             (?P\<lparr>Config := sample_defaults\<lparr>Name := ''web''\<rparr>, CanBuild := False\<rparr>, None, [])"
    by (simp add: zero_ProjectConfig_def)
  from Load_no_Dockerfile [OF h1(1) h2(1), of _ _ sample_defaults]
  have b: "Load_error ?E ?P sample_defaults = None \<and> Load_vcs_calls ?E ?P sample_defaults = [] \<and>
           \<not> CanBuild (Load_project ?E ?P sample_defaults) \<and>
           GitVersion (Load_project ?E ?P sample_defaults) = None \<and>
           Tag (Load_project ?E ?P sample_defaults) = [] \<and>
           Repository (Load_project ?E ?P sample_defaults) = [] \<and>
           Image (Load_project ?E ?P sample_defaults) = [] \<and>
           ImageWithRegistry (Load_project ?E ?P sample_defaults) = []"
    by (auto simp: new_Project_def)
  from a b show ?thesis by blast
qed

subsection \<open>C10: the image identity on an error path\<close>

text \<open>
  Claim C10. Whenever \<open>Load\<close> returns a non-nil error, the fields \<open>Tag\<close>, \<open>Repository\<close>,
  \<open>Image\<close> and \<open>ImageWithRegistry\<close> of a project that had them empty are still empty:
  no part of the image identity is assembled on an error path.
\<close>

theorem Load_error_no_identity:
  assumes "Load_error env p d = Some e"
    and "Tag p = []" and "Repository p = []" and "Image p = []" and "ImageWithRegistry p = []"
  shows "Tag (Load_project env p d) = [] \<and> Repository (Load_project env p d) = [] \<and>
         Image (Load_project env p d) = [] \<and> ImageWithRegistry (Load_project env p d) = []"
  using assms
  by (auto simp: Load_def Load_error_def Load_project_def Let_def
      dest: FormatTemplate_error_empty
      split: if_splits sum.splits prod.splits option.splits)

theorem Load_error_no_identity_witness:
  "Load_error (sample_env (sample_files (Some ''version_template: {{.Hash'') True))
     (new_Project ''/w/app'' []) sample_defaults = Some (ErrTemplateParse ''unclosed action'') \<and>
   Tag (Load_project (sample_env (sample_files (Some ''version_template: {{.Hash'') True))
     (new_Project ''/w/app'' []) sample_defaults) = [] \<and>
   Repository (Load_project (sample_env (sample_files (Some ''version_template: {{.Hash'') True))
     (new_Project ''/w/app'' []) sample_defaults) = [] \<and>
   Image (Load_project (sample_env (sample_files (Some ''version_template: {{.Hash'') True))
     (new_Project ''/w/app'' []) sample_defaults) = [] \<and>
   ImageWithRegistry (Load_project
     (sample_env (sample_files (Some ''version_template: {{.Hash'') True))
     (new_Project ''/w/app'' []) sample_defaults) = []"
proof -
  have failed: "Load_error (sample_env (sample_files (Some ''version_template: {{.Hash'') True))
      (new_Project ''/w/app'' []) sample_defaults = Some (ErrTemplateParse ''unclosed action'')"
    by code_simp
  have fresh: "Tag (new_Project ''/w/app'' []) = []"
    "Repository (new_Project ''/w/app'' []) = []"
    "Image (new_Project ''/w/app'' []) = []"
    "ImageWithRegistry (new_Project ''/w/app'' []) = []"
    by (simp_all add: new_Project_def)
  from Load_error_no_identity [OF failed fresh] failed show ?thesis by simp
qed

subsection \<open>C9: where the name comes from\<close>

text \<open>
  Claim C9. When the descriptor exists and parses, \<open>Config.Name\<close> after \<open>Load\<close> is the
  name the descriptor set or, if it set none, the base name of the project directory.
  It is never the defaults' name: the name is defaulted before the merge, the base name
  of a path is never empty, and the merge does not overwrite a non-empty name (the
  contract of the merge library, taken as the last premise).
\<close>

theorem Load_Name_never_from_defaults:
  assumes "\<not> IsNotExist (os_Stat env (filepath_Join env (Dir p) pileConfigName))"
    and "ioutil_ReadFile env (filepath_Join env (Dir p) pileConfigName) = Inr configFile"
    and "yaml_Unmarshal env configFile (Config p) = (parsed, None)"
    and "\<And>cfg. Name cfg \<noteq> [] \<Longrightarrow> Name (fst (mergo_Merge env cfg d)) = Name cfg"
  shows "Name (Config (Load_project env p d)) =
           (if Name parsed = [] then filepath_Base (Dir p) else Name parsed) \<and>
         Name (Config (Load_project env p d)) \<noteq> []"
  using assms filepath_Base_nonempty [of "Dir p"]
  by (simp add: Load_def Load_project_def Let_def
      split: sum.splits prod.splits option.splits)

theorem Load_Name_never_from_defaults_witness:
  "Name sample_defaults = ''root'' \<and>
   Name (Config (Load_project (sample_env (sample_files (Some ''version_prefix: v'') False))
     (new_Project ''/w/app'' []) sample_defaults)) = ''app''"
proof -
  let ?E = "sample_env (sample_files (Some ''version_prefix: v'') False)"
  let ?P = "new_Project ''/w/app'' [] :: string Project"
  have h1: "\<not> IsNotExist (os_Stat ?E (filepath_Join ?E (Dir ?P) pileConfigName))"
    by (simp add: sample_env_def sample_files_def new_Project_def IsNotExist_def
        pileConfigName_def)
  have h2: "ioutil_ReadFile ?E (filepath_Join ?E (Dir ?P) pileConfigName) =
              Inr ''version_prefix: v''"
    by (simp add: sample_env_def sample_files_def new_Project_def pileConfigName_def)
  have h3: "yaml_Unmarshal ?E ''version_prefix: v'' (Config ?P) =
              ((zero_ProjectConfig [])\<lparr>VersionPrefix := ''v''\<rparr>, None)"
    by (simp add: sample_env_def sample_Unmarshal_def new_Project_def)
  have h4: "\<And>cfg. Name cfg \<noteq> [] \<Longrightarrow>
              Name (fst (mergo_Merge ?E cfg sample_defaults)) = Name cfg"
    by (simp add: sample_env_def sample_Merge_def inherit_def)
  have base: "filepath_Base ''/w/app'' = ''app''"
    by code_simp
  from Load_Name_never_from_defaults [OF h1 h2 h3 h4] base
  show ?thesis
    by (simp add: zero_ProjectConfig_def new_Project_def sample_defaults_def)
qed

subsection \<open>C8: the merge with the defaults\<close>




subsection \<open>C1: a descriptor that is missing, unreadable or malformed\<close>

text \<open>
  Claim C1, as amended. When \<^verbatim>\<open>pile.yml\<close> is missing, cannot be read or does not parse,
  \<open>Load\<close> returns no error and stops at that point: it calls the version resolver not
  once and returns the project as it was, but for \<open>Config\<close>, which holds what the parser
  left in it when it was the parser that failed. The name is not defaulted, the
  defaults are not merged, the Dockerfile is not looked for.
\<close>

theorem Load_stops_without_descriptor:
  "(IsNotExist (os_Stat env (filepath_Join env (Dir p) pileConfigName)) \<longrightarrow>
      Load env p d = (p, None, [])) \<and>
   (\<not> IsNotExist (os_Stat env (filepath_Join env (Dir p) pileConfigName)) \<and>
    ioutil_ReadFile env (filepath_Join env (Dir p) pileConfigName) = Inl readErr \<longrightarrow>
      Load env p d = (p, None, [])) \<and>
   (\<not> IsNotExist (os_Stat env (filepath_Join env (Dir p) pileConfigName)) \<and>
    ioutil_ReadFile env (filepath_Join env (Dir p) pileConfigName) = Inr configFile \<and>
    yaml_Unmarshal env configFile (Config p) = (parsed, Some yamlErr) \<longrightarrow>
      Load env p d = (p\<lparr>Config := parsed\<rparr>, None, []))"
  by (simp add: Load_def Let_def)

theorem Load_stops_without_descriptor_witness:
  "Load (sample_env (sample_files None True)) (new_Project ''/w/app'' []) sample_defaults =
     (new_Project ''/w/app'' [], None, []) \<and>
   Load ((sample_env (sample_files (Some ''name: web'') True))
           \<lparr>ioutil_ReadFile := (\<lambda>path. Inl (ErrIO ''permission denied''))\<rparr>)
     (new_Project ''/w/app'' []) sample_defaults =
     (new_Project ''/w/app'' [], None, []) \<and>
   Load (sample_env (sample_files (Some ''name: ['') True)) (new_Project ''/w/app'' [])
     sample_defaults =
     ((new_Project ''/w/app'' [])\<lparr>Config := zero_ProjectConfig []\<rparr>, None, [])"
proof -
  let ?P = "new_Project ''/w/app'' [] :: string Project"
  let ?E1 = "sample_env (sample_files None True)"
  let ?E2 = "(sample_env (sample_files (Some ''name: web'') True))
               \<lparr>ioutil_ReadFile := (\<lambda>path. Inl (ErrIO ''permission denied''))\<rparr>"
  let ?E3 = "sample_env (sample_files (Some ''name: ['') True)"
  have a: "IsNotExist (os_Stat ?E1 (filepath_Join ?E1 (Dir ?P) pileConfigName))"
    by (simp add: sample_env_def sample_files_def new_Project_def IsNotExist_def
        pileConfigName_def)
  have b: "\<not> IsNotExist (os_Stat ?E2 (filepath_Join ?E2 (Dir ?P) pileConfigName)) \<and>
           ioutil_ReadFile ?E2 (filepath_Join ?E2 (Dir ?P) pileConfigName) =
             Inl (ErrIO ''permission denied'')"
    by (simp add: sample_env_def sample_files_def new_Project_def IsNotExist_def
        pileConfigName_def)
  have c: "\<not> IsNotExist (os_Stat ?E3 (filepath_Join ?E3 (Dir ?P) pileConfigName)) \<and>
           ioutil_ReadFile ?E3 (filepath_Join ?E3 (Dir ?P) pileConfigName) = Inr ''name: ['' \<and>
           yaml_Unmarshal ?E3 ''name: ['' (Config ?P) =
             (zero_ProjectConfig [], Some (ErrYAML ''cannot unmarshal''))"
    by (simp add: sample_env_def sample_files_def sample_Unmarshal_def new_Project_def
        IsNotExist_def pileConfigName_def)
  have 1: "Load ?E1 ?P sample_defaults = (?P, None, [])"
    using a Load_stops_without_descriptor [of ?E1 ?P sample_defaults] by blast
  have 2: "Load ?E2 ?P sample_defaults = (?P, None, [])"
    using b Load_stops_without_descriptor [of ?E2 ?P sample_defaults "ErrIO ''permission denied''"]
    by blast
  have 3: "Load ?E3 ?P sample_defaults = (?P\<lparr>Config := zero_ProjectConfig []\<rparr>, None, [])"
    using c Load_stops_without_descriptor [of ?E3 ?P sample_defaults _ "''name: [''"
        "zero_ProjectConfig []" "ErrYAML ''cannot unmarshal''"]
    by blast
  from 1 2 3 show ?thesis by blast
qed

theorem Load_missing_descriptor_counterexample:
  "os_Stat (sample_env (sample_files None True)) ''/w/app/Dockerfile'' = None \<and>
   filepath_Base ''/w/app'' = ''app'' \<and>
   ImagePrefix sample_defaults = ''acme/'' \<and>
   Load_error (sample_env (sample_files None True)) (new_Project ''/w/app'' [])
     sample_defaults = None \<and>
   Name (Config (Load_project (sample_env (sample_files None True)) (new_Project ''/w/app'' [])
     sample_defaults)) = [] \<and>
   ImagePrefix (Config (Load_project (sample_env (sample_files None True))
     (new_Project ''/w/app'' []) sample_defaults)) = [] \<and>
   \<not> CanBuild (Load_project (sample_env (sample_files None True)) (new_Project ''/w/app'' [])
     sample_defaults) \<and>
   GitVersion (Load_project (sample_env (sample_files None True)) (new_Project ''/w/app'' [])
     sample_defaults) = None \<and>
   Load_vcs_calls (sample_env (sample_files None True)) (new_Project ''/w/app'' [])
     sample_defaults = []"
  by code_simp

subsection \<open>C3: the template the tag is rendered from\<close>

text \<open>
  Claim C3, as amended. For a buildable project whose version is resolved, \<open>Load\<close>
  renders the tag from the \<open>VersionTemplate\<close> of the merged configuration as it stands,
  also when that template is empty: \<open>Load\<close> never puts the built-in default template in
  its place, which takes part only when the defaults carry it into the merge. When the
  template parses and renders, the tag is the rendered text, with the configured
  version prefix in front of it if that prefix is not empty.
\<close>

theorem Load_Tag_rendered_from_VersionTemplate:
  assumes "\<not> IsNotExist (os_Stat env (filepath_Join env (Dir p) pileConfigName))"
    and "ioutil_ReadFile env (filepath_Join env (Dir p) pileConfigName) = Inr configFile"
    and "yaml_Unmarshal env configFile (Config p) = (parsed, None)"
    and "\<not> IsNotExist (os_Stat env (filepath_Join env (Dir p) dockerfile))"
    and "Load_error env p d = None"
    and "tmpl_Parse env (VersionTemplate (Config (Load_project env p d))) = Inr t"
    and "tmpl_Execute env t (GitVersion (Load_project env p d)) = Inr rendered"
  shows "Tag (Load_project env p d) =
           (if VersionPrefix (Config (Load_project env p d)) \<noteq> []
            then VersionPrefix (Config (Load_project env p d)) @ rendered else rendered)"
  using assms
  by (auto simp: Load_def Load_error_def Load_project_def Let_def FormatTemplate_def
      split: if_splits sum.splits prod.splits option.splits)

theorem Load_Tag_rendered_from_VersionTemplate_witness:
  "VersionTemplate (Config (Load_project
     (sample_env (sample_files (Some ''version_template: r{{.Hash}}'') True))
     (new_Project ''/w/app'' []) (sample_defaults\<lparr>VersionPrefix := ''v''\<rparr>))) = ''r{{.Hash}}'' \<and>
   VersionPrefix (Config (Load_project
     (sample_env (sample_files (Some ''version_template: r{{.Hash}}'') True))
     (new_Project ''/w/app'' []) (sample_defaults\<lparr>VersionPrefix := ''v''\<rparr>))) = ''v'' \<and>
   Tag (Load_project (sample_env (sample_files (Some ''version_template: r{{.Hash}}'') True))
     (new_Project ''/w/app'' []) (sample_defaults\<lparr>VersionPrefix := ''v''\<rparr>)) = ''vrabcdef1''"
proof -
  let ?E = "sample_env (sample_files (Some ''version_template: r{{.Hash}}'') True)"
  let ?P = "new_Project ''/w/app'' [] :: string Project"
  let ?D = "sample_defaults\<lparr>VersionPrefix := ''v''\<rparr>"
  have h1: "\<not> IsNotExist (os_Stat ?E (filepath_Join ?E (Dir ?P) pileConfigName))"
    by (simp add: sample_env_def sample_files_def new_Project_def IsNotExist_def
        pileConfigName_def)
  have h2: "ioutil_ReadFile ?E (filepath_Join ?E (Dir ?P) pileConfigName) =
              Inr ''version_template: r{{.Hash}}''"
    by (simp add: sample_env_def sample_files_def new_Project_def pileConfigName_def)
  have h3: "yaml_Unmarshal ?E ''version_template: r{{.Hash}}'' (Config ?P) =
              ((zero_ProjectConfig [])\<lparr>VersionTemplate := ''r{{.Hash}}''\<rparr>, None)"
    by (simp add: sample_env_def sample_Unmarshal_def new_Project_def)
  have h4: "\<not> IsNotExist (os_Stat ?E (filepath_Join ?E (Dir ?P) dockerfile))"
    by (simp add: sample_env_def sample_files_def new_Project_def IsNotExist_def
        dockerfile_def)
  have h5: "Load_error ?E ?P ?D = None"
    by code_simp
  have tmpl: "VersionTemplate (Config (Load_project ?E ?P ?D)) = ''r{{.Hash}}''"
    by code_simp
  have pre: "VersionPrefix (Config (Load_project ?E ?P ?D)) = ''v''"
    by code_simp
  have gv: "GitVersion (Load_project ?E ?P ?D) = Some sample_version"
    by code_simp
  have parse: "template_Parse ''r{{.Hash}}'' = Inr [TextNode ''r'', FieldNode ''Hash'']"
    by code_simp
  have exec: "template_Execute [TextNode ''r'', FieldNode ''Hash''] (Some sample_version) =
                Inr ''rabcdef1''"
    by code_simp
  have h6: "tmpl_Parse ?E (VersionTemplate (Config (Load_project ?E ?P ?D))) =
              Inr [TextNode ''r'', FieldNode ''Hash'']"
    using parse by (simp add: tmpl) (simp add: sample_env_def)
  have h7: "tmpl_Execute ?E [TextNode ''r'', FieldNode ''Hash'']
              (GitVersion (Load_project ?E ?P ?D)) = Inr ''rabcdef1''"
    using exec by (simp add: gv) (simp add: sample_env_def)
  from Load_Tag_rendered_from_VersionTemplate [OF h1 h2 h3 h4 h5 h6 h7] tmpl pre
  show ?thesis by simp
qed

theorem Load_empty_template_counterexample:
  "CanBuild (Load_project (sample_env (sample_files (Some ''name: web'') True))
     (new_Project ''/w/app'' []) sample_defaults) \<and>
   Load_error (sample_env (sample_files (Some ''name: web'') True))
     (new_Project ''/w/app'' []) sample_defaults = None \<and>
   VersionTemplate (Config (Load_project (sample_env (sample_files (Some ''name: web'') True))
     (new_Project ''/w/app'' []) sample_defaults)) = [] \<and>
   GitVersion (Load_project (sample_env (sample_files (Some ''name: web'') True))
     (new_Project ''/w/app'' []) sample_defaults) = Some sample_version \<and>
   FormatTemplate template_Parse template_Execute (Some sample_version) DefaultTemplate =
     (''5.abcdef1'', None) \<and>
   Tag (Load_project (sample_env (sample_files (Some ''name: web'') True))
     (new_Project ''/w/app'' []) sample_defaults) = []"
  by code_simp

subsection \<open>C4: the error of the merge\<close>

text \<open>
  Claim C4, as amended. \<open>Load\<close> does not surface a failure of the merge: it drops the
  error the merge call returns and goes on with the configuration as the merge left
  it. What \<open>Load\<close> returns is what it returns when the merge reports no error and
  leaves the same configuration.
\<close>

theorem Load_ignores_merge_error:
  "Load env p d =
   Load (env\<lparr>mergo_Merge := (\<lambda>dst src. (fst (mergo_Merge env dst src), None))\<rparr>) p d"
  by (simp add: Load_def Let_def versionedPaths_def Project_ContextDir_def
      cong: sum.case_cong option.case_cong prod.case_cong if_cong)

theorem Load_merge_error_counterexample:
  "snd (mergo_Merge
     ((sample_env (sample_files (Some ''name: web'') True))
        \<lparr>mergo_Merge := (\<lambda>dst src. (dst, Some (ErrMerge ''merge failed'')))\<rparr>)
     ((zero_ProjectConfig [])\<lparr>Name := ''web''\<rparr>) sample_defaults) =
     Some (ErrMerge ''merge failed'') \<and>
   Load_error
     ((sample_env (sample_files (Some ''name: web'') True))
        \<lparr>mergo_Merge := (\<lambda>dst src. (dst, Some (ErrMerge ''merge failed'')))\<rparr>)
     (new_Project ''/w/app'' []) sample_defaults = None \<and>
   CanBuild (Load_project
     ((sample_env (sample_files (Some ''name: web'') True))
        \<lparr>mergo_Merge := (\<lambda>dst src. (dst, Some (ErrMerge ''merge failed'')))\<rparr>)
     (new_Project ''/w/app'' []) sample_defaults) \<and>
   Image (Load_project
     ((sample_env (sample_files (Some ''name: web'') True))
        \<lparr>mergo_Merge := (\<lambda>dst src. (dst, Some (ErrMerge ''merge failed'')))\<rparr>)
     (new_Project ''/w/app'' []) sample_defaults) = ''web:''"
  by code_simp

subsection \<open>C5: one lookup, one outcome\<close>

text \<open>
  Claim C5. In a process that calls \<open>currentUser\<close> one or more times, one after the
  other, the host lookup runs exactly once and every call returns the outcome of that
  lookup: the sanitised user name, or the error of the lookup. An error is sticky: the
  calls after a failed lookup return the same error and look nothing up again.
\<close>

theorem currentUser_one_lookup:
  assumes "0 < n"
  shows "lookups (snd (calls user_Current n initial_identity)) = 1 \<and>
         length (fst (calls user_Current n initial_identity)) = n \<and>
         (\<forall>r \<in> set (fst (calls user_Current n initial_identity)). r = first_outcome user_Current)"
proof -
  from assms obtain m where n: "n = Suc m" by (cases n) auto
  obtain r s where first: "currentUser user_Current initial_identity = (r, s)"
    by (cases "currentUser user_Current initial_identity")
  note f = currentUser_first [OF first]
  from f have rest: "snd (calls user_Current m s) = s"
    "fst (calls user_Current m s) = replicate m (first_outcome user_Current)"
    using calls_done [of s user_Current m] by simp_all
  show ?thesis
    using f rest first by (auto simp: n split: prod.splits)
qed

theorem currentUser_one_lookup_witness:
  "lookups (snd (calls (\<lambda>k. if k = 0 then Inl (ErrUser ''no user'') else Inr ''bob'') 3
     initial_identity)) = 1 \<and>
   length (fst (calls (\<lambda>k. if k = 0 then Inl (ErrUser ''no user'') else Inr ''bob'') 3
     initial_identity)) = 3 \<and>
   list_all (\<lambda>r. r = ([], Some (ErrUser ''no user'')))
     (fst (calls (\<lambda>k. if k = 0 then Inl (ErrUser ''no user'') else Inr ''bob'') 3
        initial_identity)) \<and>
   lookups (snd (calls (\<lambda>k. Inr ''j.doe-7'') 2 initial_identity)) = 1 \<and>
   list_all (\<lambda>r. r = (''jdoe7'', None)) (fst (calls (\<lambda>k. Inr ''j.doe-7'') 2 initial_identity))"
proof -
  have s: "filter is_alnum ''j.doe-7'' = ''jdoe7''"
    by code_simp
  from currentUser_one_lookup [of 3 "\<lambda>k. if k = 0 then Inl (ErrUser ''no user'') else Inr ''bob''"]
    currentUser_one_lookup [of 2 "\<lambda>k. Inr ''j.doe-7''"] s
  show ?thesis
    by (simp add: list_all_iff first_outcome_def)
qed

end
